theory Spec2Isabelle
  imports Main "HOL-Library.Finite_Map"
begin

section \<open>Flowsheet names: \<^verbatim>\<open>FlowsheetServer.canonical_flowsheet_name\<close>\<close>

text \<open>
  The source is one line of \<^verbatim>\<open>model_server.py\<close>:
  \<^verbatim>\<open>return re.sub(r"-+", "-", re.sub(r"[^a-zA-Z0-9-._]", "-", name))\<close>
  A Python string is modelled as a \<^typ>\<open>string\<close>. Both substitutions work character by
  character, and every character that is not one of the ASCII characters named in the class
  is treated alike.
\<close>

definition in_range :: "char \<Rightarrow> char \<Rightarrow> char \<Rightarrow> bool" where
  "in_range lo hi c \<longleftrightarrow> (of_char lo :: nat) \<le> of_char c \<and> (of_char c :: nat) \<le> of_char hi"

text \<open>
  The members of the negated class \<^verbatim>\<open>[^a-zA-Z0-9-._]\<close>: three ranges, then the literal
  characters \<^verbatim>\<open>-\<close>, \<^verbatim>\<open>.\<close> and \<^verbatim>\<open>_\<close> (the dash after the completed range
  \<^verbatim>\<open>0-9\<close> is a literal).
\<close>

definition name_class :: "char \<Rightarrow> bool" where
  "name_class c \<longleftrightarrow>
     in_range CHR ''a'' CHR ''z'' c \<or> in_range CHR ''A'' CHR ''Z'' c \<or> in_range CHR ''0'' CHR ''9'' c
     \<or> c = CHR ''-'' \<or> c = CHR ''.'' \<or> c = CHR ''_''"

text \<open>The inner \<^verbatim>\<open>re.sub\<close>: every character outside the class becomes a dash.\<close>

definition sub_outside :: "string \<Rightarrow> string" where
  "sub_outside name = map (\<lambda>c. if name_class c then c else CHR ''-'') name"

text \<open>
  The outer \<^verbatim>\<open>re.sub(r"-+", "-", s)\<close>: scanning from the left, a greedy match of
  one or more dashes is replaced by one dash and the scan goes on after the match; any other
  character is copied.
\<close>

function sub_dashes :: "string \<Rightarrow> string" where
  "sub_dashes [] = []"
| "sub_dashes (c # cs) =
     (if c = CHR ''-'' then CHR ''-'' # sub_dashes (dropWhile (\<lambda>d. d = CHR ''-'') cs)
      else c # sub_dashes cs)"
  by pat_completeness auto
termination
  by (relation "measure length") (auto simp: length_dropWhile_le less_Suc_eq_le)

definition canonical_flowsheet_name :: "string \<Rightarrow> string" where
  "canonical_flowsheet_name name = sub_dashes (sub_outside name)"

text \<open>
  The specification's wording of the same function, kept apart from the source's: the set
  of characters it names, and the collapsing of runs described on adjacent characters.
\<close>

definition spec_class :: "char \<Rightarrow> bool" where
  "spec_class c \<longleftrightarrow>
     in_range CHR ''A'' CHR ''Z'' c \<or> in_range CHR ''a'' CHR ''z'' c \<or> in_range CHR ''0'' CHR ''9'' c
     \<or> c = CHR ''.'' \<or> c = CHR ''_'' \<or> c = CHR ''~''"

fun collapse_runs :: "string \<Rightarrow> string" where
  "collapse_runs (a # b # cs) =
     (if a = CHR ''-'' \<and> b = CHR ''-'' then collapse_runs (b # cs) else a # collapse_runs (b # cs))"
| "collapse_runs cs = cs"

definition spec_canonicalize :: "string \<Rightarrow> string" where
  "spec_canonicalize s = collapse_runs (map (\<lambda>c. if spec_class c then c else CHR ''-'') s)"


section \<open>Values, documents and exceptions\<close>

text \<open>
  A flowsheet document is what \<^verbatim>\<open>FlowsheetSerializer.as_dict()\<close> returns and what
  a store holds: a dictionary from strings to JSON values. Dictionaries are finite maps, so
  that equality of documents is Python's \<^verbatim>\<open>==\<close> on dictionaries: deep, and blind to the order of
  the keys. \<^verbatim>\<open>None\<close> is \<open>JNull\<close>.
\<close>

datatype json =
    JNull
  | JBool bool
  | JNum int
  | JStr string
  | JArr "json list"
  | JObj "(string, json) fmap"

type_synonym document = "(string, json) fmap"

text \<open>
  The exceptions that the two modules raise or catch. The payload is the text that
  \<^verbatim>\<open>str(err)\<close> gives, which the source puts into its messages. The classes of the
  module \<^verbatim>\<open>errors\<close>, which is not among the sources, are constructors of their own.
\<close>

datatype exn =
    KeyError string
  | ValueError string
  | AttributeError string
  | TypeError string
  | UnboundLocalError string
  | RuntimeError string
  | FlowsheetUnknown string
  | FlowsheetNotFoundInDatastore string
  | FlowsheetNotFoundInMemory string
  | ProcessingError string
  | DatastoreError string
  | TooManySavedVersions string
  | VisualizerError string

fun str_exn :: "exn \<Rightarrow> string" where
  "str_exn (KeyError m) = m"
| "str_exn (ValueError m) = m"
| "str_exn (AttributeError m) = m"
| "str_exn (TypeError m) = m"
| "str_exn (UnboundLocalError m) = m"
| "str_exn (RuntimeError m) = m"
| "str_exn (FlowsheetUnknown m) = m"
| "str_exn (FlowsheetNotFoundInDatastore m) = m"
| "str_exn (FlowsheetNotFoundInMemory m) = m"
| "str_exn (ProcessingError m) = m"
| "str_exn (DatastoreError m) = m"
| "str_exn (TooManySavedVersions m) = m"
| "str_exn (VisualizerError m) = m"

text \<open>Decimal text of an integer, as an f-string prints it.\<close>

fun str_nat :: "nat \<Rightarrow> string" where
  "str_nat n =
     (if n < 10 then [''0123456789'' ! n]
      else str_nat (n div 10) @ [''0123456789'' ! (n mod 10)])"

definition str_int :: "int \<Rightarrow> string" where
  "str_int i = (if i < 0 then CHR ''-'' # str_nat (nat (- i)) else str_nat (nat i))"

section \<open>Paths and files\<close>

text \<open>
  A \<^verbatim>\<open>pathlib.Path\<close> is the list of its components; an absolute path starts with the
  component \<^verbatim>\<open>/\<close>. A file name joined to a directory is one more component (a flowsheet
  name is taken to hold no path separator). The disk maps a path to the content of the
  file there: a document, or nothing at all after \<^verbatim>\<open>open("w")\<close>. Files with other
  content are not part of the model.
\<close>

type_synonym path = "string list"

datatype file_content = Blank | Saved document

type_synonym disk = "path \<rightharpoonup> file_content"

definition is_absolute :: "path \<Rightarrow> bool" where
  "is_absolute p = (case p of [] \<Rightarrow> False | c # _ \<Rightarrow> c = ''/'')"

definition parent :: "path \<Rightarrow> path" where
  "parent p = (if p = [''/''] then p else butlast p)"

definition joinpath :: "path \<Rightarrow> string \<Rightarrow> path" where
  "joinpath d f = d @ [f]"

definition exists_path :: "disk \<Rightarrow> path \<Rightarrow> bool" where
  "exists_path fs p \<longleftrightarrow> fs p \<noteq> None"

section \<open>Save paths: \<^verbatim>\<open>fsvis.py\<close>\<close>

definition MAX_SAVED_VERSIONS :: int where
  "MAX_SAVED_VERSIONS = 100"

definition sys_maxsize :: int where
  "sys_maxsize = 2 ^ 63 - 1"

text \<open>\<^verbatim>\<open>_pick_default_save_location\<close>: \<^verbatim>\<open>name.json\<close> in \<^verbatim>\<open>save_dir\<close>, or in \<^verbatim>\<open>Path(".")\<close>.\<close>

definition pick_default_save_location :: "string \<Rightarrow> path option \<Rightarrow> path" where
  "pick_default_save_location name save_dir =
     joinpath (case save_dir of None \<Rightarrow> [] | Some d \<Rightarrow> d) (name @ ''.json'')"

text \<open>
  The loop of \<^verbatim>\<open>_handle_existing_save_path\<close>:
  \<^verbatim>\<open>
  while save_path.exists() and counter < max_versions:
      counter += 1
      save_file = f"{name}-{counter}.json"
      save_path = save_dir / save_file
  \<close>
  It returns the counter and the path it stopped at.
\<close>

function version_loop :: "disk \<Rightarrow> path \<Rightarrow> string \<Rightarrow> int \<Rightarrow> path \<Rightarrow> int \<Rightarrow> int \<times> path" where
  "version_loop fs save_dir name max_versions save_path counter =
     (if exists_path fs save_path \<and> counter < max_versions
      then version_loop fs save_dir name max_versions
             (joinpath save_dir (name @ ''-'' @ str_int (counter + 1) @ ''.json'')) (counter + 1)
      else (counter, save_path))"
  by pat_completeness auto
termination
  by (relation "measure (\<lambda>(fs, save_dir, name, max_versions, save_path, counter).
        nat (max_versions - counter))") auto

text \<open>
  \<^verbatim>\<open>_handle_existing_save_path(name, save_path, max_versions, overwrite)\<close>. The result is
  the path or the exception, and the disk as the call leaves it: with \<^verbatim>\<open>overwrite\<close>, an
  existing file is opened for writing, which empties it.
\<close>

definition handle_existing_save_path ::
    "disk \<Rightarrow> string \<Rightarrow> path \<Rightarrow> int \<Rightarrow> bool \<Rightarrow> (exn + path) \<times> disk" where
  "handle_existing_save_path fs name save_path max_versions overwrite =
     (let save_dir = parent save_path in
      if overwrite then
        (if exists_path fs save_path then (Inr save_path, fs(save_path \<mapsto> Blank))
         else (Inr save_path, fs))
      else if \<not> exists_path fs save_path then (Inr save_path, fs)
      else
        let max_versions = (if max_versions = 0 then sys_maxsize else max_versions);
            (counter, save_path) = version_loop fs save_dir name max_versions save_path 0
        in if counter = max_versions
           then (Inl (TooManySavedVersions
                   (''Found '' @ str_int max_versions @ '' numbered files of form '' @ [CHR 0x27]
                    @ name @ ''-<num>.json'' @ [CHR 0x27] @ ''. That'' @ [CHR 0x27] @ ''s too many.'')), fs)
           else (Inr save_path, fs))"


text \<open>The numbered sibling \<^verbatim>\<open>name-k.json\<close> of a save path, in the directory \<open>d\<close>.\<close>

definition versioned :: "path \<Rightarrow> string \<Rightarrow> int \<Rightarrow> path" where
  "versioned d name k = joinpath d (name @ ''-'' @ str_int k @ ''.json'')"

section \<open>The server's state and its collaborators\<close>

text \<open>
  Modelled from the spec: \<^verbatim>\<open>FlowsheetSerializer\<close> (module \<^verbatim>\<open>idaes_ui.fv.flowsheet\<close>,
  not among the sources). The serializer either returns a document or raises; nothing
  limits the exception it raises. A live flowsheet object is opaque to the server: all
  that is done with it is \<^verbatim>\<open>FlowsheetSerializer(flowsheet, id_).as_dict()\<close>, so the
  object is taken as the outcome of that call for each identifier.
\<close>

type_synonym flowsheet = "string \<Rightarrow> exn + document"

text \<open>
  Modelled from the spec: \<^verbatim>\<open>FlowsheetSerializer(flowsheet, id_).as_dict()\<close>, the
  document or the exception raised.
\<close>

definition as_dict :: "flowsheet \<Rightarrow> string \<Rightarrow> exn + document" where
  "as_dict flowsheet i = flowsheet i"

text \<open>
  Modelled from the spec: the stores of module \<^verbatim>\<open>persist\<close> (not among the sources). A
  store is bound to one file path, or to none and then keeps its document in memory.
\<close>

datatype DataStore = MemoryDataStore "document option" | FileDataStore path

record world =
  flowsheets :: "string \<rightharpoonup> flowsheet"
  dsm :: "string \<rightharpoonup> DataStore"
  settings_block :: "string \<rightharpoonup> json"
  files :: disk

text \<open>
  Modelled from the spec: \<^verbatim>\<open>DataStore.load()\<close>. Loading a store to which no
  document was written is the "not found" condition, which the source catches as
  \<^verbatim>\<open>ValueError\<close>: a memory store without a document, a path without a file, or a
  file that is empty (created or emptied by \<^verbatim>\<open>open("w")\<close>, it holds no document).
\<close>

definition store_load :: "disk \<Rightarrow> DataStore \<Rightarrow> exn + document" where
  "store_load fs store =
     (case store of
        MemoryDataStore None \<Rightarrow> Inl (ValueError ''not found'')
      | MemoryDataStore (Some d) \<Rightarrow> Inr d
      | FileDataStore p \<Rightarrow>
          (case fs p of
             None \<Rightarrow> Inl (ValueError ''not found'')
           | Some Blank \<Rightarrow> Inl (ValueError ''no document'')
           | Some (Saved d) \<Rightarrow> Inr d))"

text \<open>
  Modelled from the spec: \<^verbatim>\<open>DataStore.save(doc)\<close> replaces the document of the store,
  on disk or in memory. The store object of an identifier is the one the registry holds.
\<close>

definition store_save :: "world \<Rightarrow> string \<Rightarrow> DataStore \<Rightarrow> document \<Rightarrow> world" where
  "store_save w i store doc =
     (case store of
        MemoryDataStore _ \<Rightarrow> w\<lparr>dsm := (dsm w)(i \<mapsto> MemoryDataStore (Some doc))\<rparr>
      | FileDataStore p \<Rightarrow> w\<lparr>files := (files w)(p \<mapsto> Saved doc)\<rparr>)"

text \<open>
  Modelled from the spec: \<^verbatim>\<open>persist.DataStoreManager.load\<close> (not among the sources)
  delegates to the store bound to the identifier; an identifier that is not bound is a
  \<^verbatim>\<open>KeyError\<close>.
\<close>

definition dsm_load :: "world \<Rightarrow> string \<Rightarrow> exn + document" where
  "dsm_load w i =
     (case dsm w i of None \<Rightarrow> Inl (KeyError i) | Some store \<Rightarrow> store_load (files w) store)"

text \<open>
  Modelled from the spec: \<^verbatim>\<open>persist.DataStoreManager.save\<close> delegates to the store
  bound to the identifier; an identifier that is not bound is a \<^verbatim>\<open>KeyError\<close>.
\<close>

definition dsm_save :: "world \<Rightarrow> string \<Rightarrow> document \<Rightarrow> exn + world" where
  "dsm_save w i doc =
     (case dsm w i of None \<Rightarrow> Inl (KeyError i) | Some store \<Rightarrow> Inr (store_save w i store doc))"

text \<open>
  Modelled from the spec: \<^verbatim>\<open>FlowsheetDiff\<close> (module \<^verbatim>\<open>idaes_ui.fv.flowsheet\<close>,
  not among the sources). The
  diff of the stored and the live document is the set of top-level keys present in either
  with unequal values; its length is the size of that set. The merge is the key-level
  override: a key of the live document takes the live value, a key of the stored document
  alone keeps the stored value.
\<close>

record FlowsheetDiff =
  changed :: "string fset"
  merged :: document

definition flowsheet_diff :: "document \<Rightarrow> document \<Rightarrow> FlowsheetDiff" where
  "flowsheet_diff saved live =
     \<lparr>changed = ffilter (\<lambda>k. fmlookup saved k \<noteq> fmlookup live k) (fmdom saved |\<union>| fmdom live),
      merged = saved ++\<^sub>f live\<rparr>"

text \<open>
  Modelled from the spec: \<^verbatim>\<open>len(diff)\<close>, the number of differing top-level keys; a
  diff is false when its length is zero.
\<close>

definition len_diff :: "FlowsheetDiff \<Rightarrow> nat" where
  "len_diff diff = fcard (changed diff)"

text \<open>
  A store that holds no persisted document: a memory store without one, a path without a
  file, or an empty file.
\<close>

definition holds_no_document :: "disk \<Rightarrow> DataStore \<Rightarrow> bool" where
  "holds_no_document fs store =
     (case store of
        MemoryDataStore c \<Rightarrow> c = None
      | FileDataStore p \<Rightarrow> fs p = None \<or> fs p = Some Blank)"

section \<open>The server: \<^verbatim>\<open>model_server.py\<close>\<close>

text \<open>
  \<^verbatim>\<open>FlowsheetServer.__init__\<close>: no flowsheets, no stores, no settings; the disk is what
  it is.
\<close>

definition new_server :: "disk \<Rightarrow> world" where
  "new_server fs = \<lparr>flowsheets = Map.empty, dsm = Map.empty, settings_block = Map.empty, files = fs\<rparr>"

definition add_setting :: "world \<Rightarrow> string \<Rightarrow> json \<Rightarrow> world" where
  "add_setting w key v = w\<lparr>settings_block := (settings_block w)(key \<mapsto> v)\<rparr>"

text \<open>A dictionary subscript \<^verbatim>\<open>d[key]\<close> raises \<^verbatim>\<open>KeyError\<close> on a missing key.\<close>

definition getitem :: "(string \<rightharpoonup> 'v) \<Rightarrow> string \<Rightarrow> exn + 'v" where
  "getitem d key = (case d key of None \<Rightarrow> Inl (KeyError key) | Some v \<Rightarrow> Inr v)"

definition get_setting :: "world \<Rightarrow> string \<Rightarrow> exn + json" where
  "get_setting w key =
     (if settings_block w key = None then Inr JNull else getitem (settings_block w) key)"

definition load_flowsheet :: "world \<Rightarrow> string \<Rightarrow> exn + document" where
  "load_flowsheet w i = dsm_load w i"

definition get_flowsheet_obj :: "world \<Rightarrow> string \<Rightarrow> exn + flowsheet" where
  "get_flowsheet_obj w i = getitem (flowsheets w) i"

text \<open>
  \<^verbatim>\<open>_serialize_flowsheet\<close>: \<^verbatim>\<open>AttributeError\<close> and \<^verbatim>\<open>KeyError\<close> of the serializer
  become a \<^verbatim>\<open>ValueError\<close>.
\<close>

fun except_serialize :: "exn \<Rightarrow> exn" where
  "except_serialize (AttributeError m) = ValueError (''Error serializing flowsheet: '' @ m)"
| "except_serialize (KeyError m) = ValueError (''Error serializing flowsheet: '' @ m)"
| "except_serialize e = e"

definition serialize_flowsheet :: "string \<Rightarrow> flowsheet \<Rightarrow> exn + document" where
  "serialize_flowsheet i flowsheet =
     (case as_dict flowsheet i of Inl e \<Rightarrow> Inl (except_serialize e) | Inr d \<Rightarrow> Inr d)"

text \<open>
  \<^verbatim>\<open>save_flowsheet\<close>: \<^verbatim>\<open>DatastoreError\<close> and \<^verbatim>\<open>KeyError\<close> of the registry become
  a \<^verbatim>\<open>ProcessingError\<close>.
\<close>

fun except_save :: "exn \<Rightarrow> exn" where
  "except_save (DatastoreError m) = ProcessingError (''While saving flowsheet: '' @ m)"
| "except_save (KeyError m) = ProcessingError (''While saving flowsheet: '' @ m)"
| "except_save e = e"

definition save_flowsheet :: "world \<Rightarrow> string \<Rightarrow> document \<Rightarrow> exn + world" where
  "save_flowsheet w i doc =
     (case dsm_save w i doc of Inl e \<Rightarrow> Inl (except_save e) | Inr w' \<Rightarrow> Inr w')"

text \<open>
  The three \<^verbatim>\<open>try\<close> blocks of \<^verbatim>\<open>update_flowsheet\<close>, each with the exceptions it
  translates; any other exception passes through.
\<close>

fun except_load :: "string \<Rightarrow> exn \<Rightarrow> exn" where
  "except_load i (KeyError m) = FlowsheetUnknown i"
| "except_load i (ValueError m) = FlowsheetNotFoundInDatastore i"
| "except_load i e = e"

fun except_get_obj :: "string \<Rightarrow> exn \<Rightarrow> exn" where
  "except_get_obj i (KeyError m) = FlowsheetNotFoundInMemory i"
| "except_get_obj i e = e"

fun except_serialized :: "exn \<Rightarrow> exn" where
  "except_serialized (ValueError m) = ProcessingError (''Cannot serialize flowsheet: '' @ m)"
| "except_serialized e = e"

text \<open>
  The exceptions of the serializer that the two \<^verbatim>\<open>except\<close> clauses on the way
  (\<^verbatim>\<open>(AttributeError, KeyError)\<close> in \<^verbatim>\<open>_serialize_flowsheet\<close>, \<^verbatim>\<open>ValueError\<close> in
  \<^verbatim>\<open>update_flowsheet\<close>) catch.
\<close>

fun caught_on_serialize :: "exn \<Rightarrow> bool" where
  "caught_on_serialize (AttributeError m) = True"
| "caught_on_serialize (KeyError m) = True"
| "caught_on_serialize (ValueError m) = True"
| "caught_on_serialize e = False"

text \<open>
  \<^verbatim>\<open>update_flowsheet(id_)\<close> returns the merged document or raises, and leaves the world
  as it was unless it saves.
\<close>

definition update_flowsheet :: "world \<Rightarrow> string \<Rightarrow> (exn + document) \<times> world" where
  "update_flowsheet w i =
     (case load_flowsheet w i of
        Inl e \<Rightarrow> (Inl (except_load i e), w)
      | Inr saved \<Rightarrow>
          (case get_flowsheet_obj w i of
             Inl e \<Rightarrow> (Inl (except_get_obj i e), w)
           | Inr obj \<Rightarrow>
               (case serialize_flowsheet i obj of
                  Inl e \<Rightarrow> (Inl (except_serialized e), w)
                | Inr obj_dict \<Rightarrow>
                    (let diff = flowsheet_diff saved obj_dict in
                     if len_diff diff = 0 then (Inr (merged diff), w)
                     else
                       (case save_flowsheet w i (merged diff) of
                          Inl e \<Rightarrow> (Inl e, w)
                        | Inr w' \<Rightarrow> (Inr (merged diff), w'))))))"

text \<open>
  The situation in which the serializer is reached and raises \<open>e\<close>: the stored document
  of the identifier loads, its live flowsheet is there, and serializing it raises \<open>e\<close>.
\<close>

definition serializer_raises :: "world \<Rightarrow> string \<Rightarrow> exn \<Rightarrow> bool" where
  "serializer_raises w i e =
     (case dsm_load w i of
        Inl _ \<Rightarrow> False
      | Inr _ \<Rightarrow> (case flowsheets w i of None \<Rightarrow> False | Some fs \<Rightarrow> fs i = Inl e))"

text \<open>
  \<^verbatim>\<open>add_flowsheet(id_, flowsheet, store)\<close>: register under the canonical name, then
  update; when the store holds no document yet, save the serialized flowsheet.
\<close>

definition add_flowsheet :: "world \<Rightarrow> string \<Rightarrow> flowsheet \<Rightarrow> DataStore \<Rightarrow> (exn + string) \<times> world" where
  "add_flowsheet w name flowsheet store =
     (let i = canonical_flowsheet_name name;
          w1 = w\<lparr>flowsheets := (flowsheets w)(i \<mapsto> flowsheet), dsm := (dsm w)(i \<mapsto> store)\<rparr>
      in case update_flowsheet w1 i of
           (Inl (FlowsheetNotFoundInDatastore _), w2) \<Rightarrow>
             (case as_dict flowsheet i of
                Inl e \<Rightarrow> (Inl e, w2)
              | Inr fs_dict \<Rightarrow> (Inr i, store_save w2 i store fs_dict))
         | (Inl e, w2) \<Rightarrow> (Inl e, w2)
         | (Inr _, w2) \<Rightarrow> (Inr i, w2))"

text \<open>
  The HTTP handler writes responses: a status code and a JSON body.
  \<^verbatim>\<open>_get_setting\<close> answers 200 with the setting's value.
\<close>

type_synonym response = "nat \<times> json"

definition get_setting_handler :: "world \<Rightarrow> string \<Rightarrow> exn + response" where
  "get_setting_handler w setting_key =
     (case get_setting w setting_key of
        Inl e \<Rightarrow> Inl e
      | Inr v \<Rightarrow> Inr (200, JObj (fmupd ''setting_value'' v fmempty)))"

text \<open>
  \<^verbatim>\<open>_put_diagnostic\<close>. The diagnostics object \<^verbatim>\<open>DiagnosticsToolbox(fs)\<close> comes from
  outside the repository; it is taken as the dictionary of its attributes, a method being
  given by what a call with an output stream does: the text it writes, or the exception it
  raises. What the handler does is the sequence of its attribute reads, calls and responses.
\<close>

datatype attribute = Method "exn + string" | Field

datatype event = GetAttr string | Call string | Respond nat json

definition error_body :: "exn \<Rightarrow> json" where
  "error_body e = JObj (fmupd ''error''
     (JStr (''Error running diagnostics: '' @ str_exn e @ '', please check your flowsheet!'')) fmempty)"

definition put_diagnostic ::
    "world \<Rightarrow> (flowsheet \<Rightarrow> string \<rightharpoonup> attribute) \<Rightarrow> string \<Rightarrow> string \<Rightarrow> event list" where
  "put_diagnostic w DiagnosticsToolbox function_name i =
     (case get_flowsheet_obj w i of
        Inl e \<Rightarrow> [Respond 500 (error_body e)]
      | Inr fs \<Rightarrow>
          (let dt_instance = DiagnosticsToolbox fs in
           if dt_instance function_name \<noteq> None then
             (case dt_instance function_name of
                Some (Method (Inr captured_output)) \<Rightarrow>
                  [GetAttr function_name, Call function_name,
                   Respond 200 (JObj (fmupd ''diagnostics_runner_result'' (JStr captured_output) fmempty))]
              | Some (Method (Inl e)) \<Rightarrow>
                  [GetAttr function_name, Call function_name, Respond 500 (error_body e)]
              | _ \<Rightarrow>
                  [GetAttr function_name, Respond 500 (error_body (TypeError ''object is not callable''))])
           else
             [Respond 500 (JObj (fmupd ''error'' (JStr (''Unknown function: '' @ function_name)) fmempty)),
              Respond 500 (error_body (UnboundLocalError ''output_stream''))]))"

section \<open>Opening a flowsheet: \<^verbatim>\<open>visualize\<close>\<close>

text \<open>
  The \<^verbatim>\<open>save\<close> argument: not given or \<^verbatim>\<open>True\<close>, \<^verbatim>\<open>False\<close>, or a path.
\<close>

datatype save_arg = SaveDefault | SaveOff | SaveAt path

definition save_location :: "string \<Rightarrow> save_arg \<Rightarrow> path option \<Rightarrow> path option" where
  "save_location name save save_dir =
     (case save of
        SaveDefault \<Rightarrow> Some (pick_default_save_location name save_dir)
      | SaveOff \<Rightarrow> None
      | SaveAt save_path \<Rightarrow>
          (case save_dir of
             Some d \<Rightarrow> if \<not> is_absolute save_path then Some (d @ save_path) else Some save_path
           | None \<Rightarrow> Some save_path))"

fun except_versions :: "exn \<Rightarrow> exn" where
  "except_versions (TooManySavedVersions m) = RuntimeError (''In visualize(): '' @ m)"
| "except_versions e = e"

fun except_add :: "exn \<Rightarrow> exn" where
  "except_add (ProcessingError m) = VisualizerError (''Cannot add flowsheet: '' @ m)"
| "except_add (DatastoreError m) = VisualizerError (''Cannot add flowsheet: '' @ m)"
| "except_add e = e"

text \<open>
  The end of \<^verbatim>\<open>visualize\<close>: the flowsheet is added to the server with its store, and the
  store is returned.
\<close>

definition register :: "world \<Rightarrow> string \<Rightarrow> flowsheet \<Rightarrow> DataStore \<Rightarrow> (exn + DataStore) \<times> world" where
  "register w name flowsheet datastore =
     (case add_flowsheet w name flowsheet datastore of
        (Inl e, w') \<Rightarrow> (Inl (except_add e), w')
      | (Inr new_name, w') \<Rightarrow>
          (Inr (case dsm w' new_name of Some st \<Rightarrow> st | None \<Rightarrow> datastore), w'))"

text \<open>
  \<^verbatim>\<open>visualize(flowsheet, name, save, load_from_saved, save_dir, overwrite)\<close>, from the
  choice of the save location to the registration of the flowsheet. The web server is taken
  as started; logging, the browser and the screenshot helper are left out.
\<close>

definition visualize ::
    "world \<Rightarrow> flowsheet \<Rightarrow> string \<Rightarrow> save_arg \<Rightarrow> bool \<Rightarrow> path option \<Rightarrow> bool
       \<Rightarrow> (exn + DataStore) \<times> world" where
  "visualize w flowsheet name save load_from_saved save_dir overwrite =
     (case save_location name save save_dir of
        None \<Rightarrow> register w name flowsheet (MemoryDataStore None)
      | Some save_path \<Rightarrow>
          if exists_path (files w) save_path \<and> load_from_saved then
            (case store_load (files w) (FileDataStore save_path) of
               Inl e \<Rightarrow> (Inl e, w)
             | Inr _ \<Rightarrow> register w name flowsheet (FileDataStore save_path))
          else
            (case handle_existing_save_path (files w) name save_path MAX_SAVED_VERSIONS overwrite of
               (Inl e, fs) \<Rightarrow>
                 (Inl (except_versions e), w\<lparr>files := fs\<rparr>)
             | (Inr save_path, fs) \<Rightarrow>
                 register (w\<lparr>files := fs\<rparr>) name flowsheet (FileDataStore save_path)))"

section \<open>The documents of the specification's merge example\<close>

definition example_stored :: document where
  "example_stored =
     fmupd ''a'' (JNum 1) (fmupd ''layout'' (JObj (fmupd ''x'' (JNum 5) fmempty)) fmempty)"

definition example_live :: document where
  "example_live = fmupd ''a'' (JNum 2) fmempty"

definition example_merged :: document where
  "example_merged =
     fmupd ''a'' (JNum 2) (fmupd ''layout'' (JObj (fmupd ''x'' (JNum 5) fmempty)) fmempty)"

section \<open>Properties of the flowsheet names\<close>

lemma sub_dashes_head:
  "ys = [] \<or> hd ys \<noteq> CHR ''-'' \<Longrightarrow> dropWhile (\<lambda>d. d = CHR ''-'') (sub_dashes ys) = sub_dashes ys"
  by (cases ys) auto

lemma sub_dashes_no_lead:
  "dropWhile (\<lambda>d. d = CHR ''-'') (sub_dashes (dropWhile (\<lambda>d. d = CHR ''-'') cs))
     = sub_dashes (dropWhile (\<lambda>d. d = CHR ''-'') cs)"
proof (rule sub_dashes_head)
  show "dropWhile (\<lambda>d. d = CHR ''-'') cs = [] \<or> hd (dropWhile (\<lambda>d. d = CHR ''-'') cs) \<noteq> CHR ''-''"
    using hd_dropWhile [of "\<lambda>d. d = CHR ''-''" cs] by blast
qed

lemma sub_dashes_idem: "sub_dashes (sub_dashes s) = sub_dashes s"
proof (induction s rule: sub_dashes.induct)
  case 1
  show ?case by simp
next
  case (2 c cs)
  show ?case
  proof (cases "c = CHR ''-''")
    case True
    with 2 show ?thesis by (simp add: sub_dashes_no_lead)
  next
    case False
    with 2 show ?thesis by simp
  qed
qed

lemma set_sub_dashes: "set (sub_dashes s) \<subseteq> set s"
proof (induction s rule: sub_dashes.induct)
  case 1
  show ?case by simp
next
  case (2 c cs)
  have "set (dropWhile (\<lambda>d. d = CHR ''-'') cs) \<subseteq> set cs"
    by (rule set_dropWhileD [THEN subsetI])
  with 2 show ?case by auto
qed

lemma name_class_sub_outside: "c \<in> set (sub_outside s) \<Longrightarrow> name_class c"
  by (auto simp: sub_outside_def name_class_def)

lemma sub_outside_id: "\<forall>c \<in> set s. name_class c \<Longrightarrow> sub_outside s = s"
  by (simp add: sub_outside_def map_idI)

text \<open>The regular-expression scan and the collapsing of adjacent dashes are one function.\<close>

lemma collapse_lead:
  "collapse_runs (CHR ''-'' # bs) = CHR ''-'' # collapse_runs (dropWhile (\<lambda>d. d = CHR ''-'') bs)"
proof (induction bs)
  case Nil
  show ?case by simp
next
  case (Cons b bs)
  then show ?case by (cases bs) auto
qed

lemma collapse_other: "a \<noteq> CHR ''-'' \<Longrightarrow> collapse_runs (a # cs) = a # collapse_runs cs"
  by (cases cs) auto

lemma sub_dashes_collapse_runs: "sub_dashes s = collapse_runs s"
proof (induction s rule: sub_dashes.induct)
  case 1
  show ?case by simp
next
  case (2 c cs)
  then show ?case by (simp add: collapse_lead collapse_other)
qed

text \<open>
  What the source computes, in the specification's terms: the characters kept are those of
  the specification's set other than the tilde.
\<close>

lemma canonical_name_without_tilde:
  "canonical_flowsheet_name s =
     collapse_runs (map (\<lambda>c. if spec_class c \<and> c \<noteq> CHR ''~'' then c else CHR ''-'') s)"
proof -
  have "(if name_class c then c else CHR ''-'') = (if spec_class c \<and> c \<noteq> CHR ''~'' then c else CHR ''-'')"
    for c
    by (auto simp: name_class_def spec_class_def in_range_def)
  then show ?thesis
    by (simp add: canonical_flowsheet_name_def sub_outside_def sub_dashes_collapse_runs)
qed

text \<open>
  C3. The claim: the canonical name is the input with every character outside
  \<^verbatim>\<open>[A-Za-z0-9._~]\<close> replaced by a dash and the runs of dashes collapsed, the tilde
  being kept. The source's class has no tilde: on \<^verbatim>\<open>a~b\<close> the source returns
  \<^verbatim>\<open>a-b\<close>, where the function the claim describes returns \<^verbatim>\<open>a~b\<close>.
\<close>

theorem canonical_name_replaces_tilde:
  "canonical_flowsheet_name ''a~b'' = ''a-b'' \<and> spec_canonicalize ''a~b'' = ''a~b''"
  by (simp add: canonical_flowsheet_name_def sub_outside_def name_class_def
      spec_canonicalize_def spec_class_def in_range_def)

text \<open>
  C8. Canonicalization is idempotent: the canonical name of a canonical name is that name.
\<close>

theorem canonical_name_idempotent:
  "canonical_flowsheet_name (canonical_flowsheet_name s) = canonical_flowsheet_name s"
proof -
  have "\<forall>c \<in> set (sub_dashes (sub_outside s)). name_class c"
    using set_sub_dashes [of "sub_outside s"] name_class_sub_outside by blast
  then have "sub_outside (sub_dashes (sub_outside s)) = sub_dashes (sub_outside s)"
    by (rule sub_outside_id)
  then show ?thesis
    by (simp add: canonical_flowsheet_name_def sub_dashes_idem)
qed


section \<open>Properties of the save paths\<close>

text \<open>
  Where the loop stops: at the first numbered path that is free, or at the ceiling,
  whichever comes first.
\<close>

lemma version_loop_stops:
  "c < k \<Longrightarrow> k \<le> m \<Longrightarrow> exists_path fs p
   \<Longrightarrow> (\<forall>j. c < j \<and> j < k \<longrightarrow> exists_path fs (versioned d name j))
   \<Longrightarrow> \<not> exists_path fs (versioned d name k) \<or> k = m
   \<Longrightarrow> version_loop fs d name m p c = (k, versioned d name k)"
proof (induction fs d name m p c rule: version_loop.induct)
  case (1 fs save_dir name max_versions save_path counter)
  let ?next = "joinpath save_dir (name @ ''-'' @ str_int (counter + 1) @ ''.json'')"
  have step: "version_loop fs save_dir name max_versions save_path counter
      = version_loop fs save_dir name max_versions ?next (counter + 1)"
    using "1.prems" by (subst version_loop.simps) simp
  show ?case
  proof (cases "counter + 1 = k")
    case True
    have "version_loop fs save_dir name max_versions ?next (counter + 1) = (counter + 1, ?next)"
      using "1.prems" True by (subst version_loop.simps) (auto simp: versioned_def)
    with step True show ?thesis by (simp add: versioned_def)
  next
    case False
    with "1.prems" have lt: "counter + 1 < k" by simp
    have ex: "exists_path fs ?next"
      using "1.prems" lt by (auto simp: versioned_def)
    have "version_loop fs save_dir name max_versions ?next (counter + 1) = (k, versioned save_dir name k)"
      using "1.prems" lt ex by (intro "1.IH") auto
    with step show ?thesis by simp
  qed
qed

text \<open>
  Below the ceiling \<open>N\<close> the first free numbered path is chosen; when the base path and
  the paths numbered \<open>1\<close> to \<open>N - 1\<close> exist the call raises, whether or not the path
  numbered \<open>N\<close> is free.
\<close>

lemma handle_first_free:
  assumes "0 < k" and "k < N" and "exists_path fs P"
    and "\<forall>j. 0 < j \<and> j < k \<longrightarrow> exists_path fs (versioned (parent P) name j)"
    and "\<not> exists_path fs (versioned (parent P) name k)"
  shows "handle_existing_save_path fs name P N False = (Inr (versioned (parent P) name k), fs)"
proof -
  have "version_loop fs (parent P) name N P 0 = (k, versioned (parent P) name k)"
    using assms by (intro version_loop_stops) auto
  then show ?thesis using assms
    by (simp add: handle_existing_save_path_def)
qed

lemma handle_raises_at_ceiling:
  assumes "0 < N" and "exists_path fs P"
    and "\<forall>j. 0 < j \<and> j < N \<longrightarrow> exists_path fs (versioned (parent P) name j)"
  shows "\<exists>m. handle_existing_save_path fs name P N False = (Inl (TooManySavedVersions m), fs)"
proof -
  have "version_loop fs (parent P) name N P 0 = (N, versioned (parent P) name N)"
    using assms by (intro version_loop_stops) auto
  then show ?thesis using assms
    by (simp add: handle_existing_save_path_def)
qed

text \<open>
  C5. The claim: when the base path exists and overwriting is not asked for, the first
  numbered path that does not exist is chosen, the path numbered with the ceiling included;
  three saves of \<^verbatim>\<open>x\<close> into an empty directory give \<^verbatim>\<open>x.json\<close>, \<^verbatim>\<open>x-1.json\<close>,
  \<^verbatim>\<open>x-2.json\<close>. The three saves come out as claimed under the module's ceiling of 100.
  With a ceiling of 2 and the files \<^verbatim>\<open>x.json\<close> and \<^verbatim>\<open>x-1.json\<close>, the free path
  \<^verbatim>\<open>x-2.json\<close> is not chosen: the call raises \<^verbatim>\<open>TooManySavedVersions\<close>.
\<close>

theorem save_path_ceiling_not_chosen:
  "fst (handle_existing_save_path Map.empty ''x'' [''x.json''] MAX_SAVED_VERSIONS False) = Inr [''x.json'']
 \<and> fst (handle_existing_save_path [[''x.json''] \<mapsto> Saved fmempty] ''x'' [''x.json''] MAX_SAVED_VERSIONS False)
      = Inr [''x-1.json'']
 \<and> fst (handle_existing_save_path [[''x.json''] \<mapsto> Saved fmempty, [''x-1.json''] \<mapsto> Saved fmempty] ''x''
         [''x.json''] MAX_SAVED_VERSIONS False) = Inr [''x-2.json'']
 \<and> \<not> exists_path [[''x.json''] \<mapsto> Saved fmempty, [''x-1.json''] \<mapsto> Saved fmempty] [''x-2.json'']
 \<and> fst (handle_existing_save_path [[''x.json''] \<mapsto> Saved fmempty, [''x-1.json''] \<mapsto> Saved fmempty] ''x''
         [''x.json''] 2 False)
      = Inl (TooManySavedVersions (''Found 2 numbered files of form '' @ [CHR 0x27] @ ''x-<num>.json''
            @ [CHR 0x27] @ ''. That'' @ [CHR 0x27] @ ''s too many.''))"
  by (simp add: handle_existing_save_path_def parent_def exists_path_def joinpath_def str_int_def
      MAX_SAVED_VERSIONS_def)

text \<open>
  C6. The claim: the call raises \<^verbatim>\<open>TooManySavedVersions\<close> exactly when the probe goes
  beyond the ceiling, a ceiling of 0 standing for no ceiling, and the error carries the
  ceiling and the base name. With a ceiling of 1 and the file \<^verbatim>\<open>x.json\<close> alone, the
  probe \<^verbatim>\<open>x-1.json\<close> is free and within the ceiling, and the call raises all the same,
  reporting one numbered file where there is none. The claim's own example (ceiling 2, the
  base file and both numbered files present) raises as claimed, the message names the ceiling
  and the base name, and a ceiling of 0 lets the probe go on.
\<close>

theorem save_path_raises_at_ceiling:
  "fst (handle_existing_save_path [[''x.json''] \<mapsto> Saved fmempty] ''x'' [''x.json''] 1 False)
      = Inl (TooManySavedVersions (''Found 1 numbered files of form '' @ [CHR 0x27] @ ''x-<num>.json''
            @ [CHR 0x27] @ ''. That'' @ [CHR 0x27] @ ''s too many.''))
 \<and> \<not> exists_path [[''x.json''] \<mapsto> Saved fmempty] [''x-1.json'']
 \<and> fst (handle_existing_save_path
         [[''x.json''] \<mapsto> Saved fmempty, [''x-1.json''] \<mapsto> Saved fmempty, [''x-2.json''] \<mapsto> Saved fmempty]
         ''x'' [''x.json''] 2 False)
      = Inl (TooManySavedVersions (''Found 2 numbered files of form '' @ [CHR 0x27] @ ''x-<num>.json''
            @ [CHR 0x27] @ ''. That'' @ [CHR 0x27] @ ''s too many.''))
 \<and> fst (handle_existing_save_path [[''x.json''] \<mapsto> Saved fmempty] ''x'' [''x.json''] 0 False)
      = Inr [''x-1.json'']"
  by (simp add: handle_existing_save_path_def parent_def exists_path_def joinpath_def str_int_def
      sys_maxsize_def)


section \<open>Properties of the settings\<close>

text \<open>
  C9. Reading a setting never raises. \<^verbatim>\<open>get_setting\<close> returns the value stored under
  the key, and \<^verbatim>\<open>None\<close> for a key that was never added; the handler answers 200 with
  that value, \<^verbatim>\<open>null\<close> for a key never added; a value just added is the value read.
\<close>

theorem get_setting_never_raises:
  "get_setting w key = Inr (case settings_block w key of None \<Rightarrow> JNull | Some v \<Rightarrow> v)
 \<and> get_setting_handler w key
     = Inr (200, JObj (fmupd ''setting_value''
         (case settings_block w key of None \<Rightarrow> JNull | Some v \<Rightarrow> v) fmempty))
 \<and> get_setting (add_setting w key v) key = Inr v"
  by (auto simp: get_setting_handler_def get_setting_def getitem_def add_setting_def
      split: option.splits)

section \<open>Properties of the reconciliation\<close>

text \<open>The diff is empty exactly when the two documents are equal.\<close>

lemma changed_empty_iff: "changed (flowsheet_diff a b) = {||} \<longleftrightarrow> a = b"
proof
  assume e: "changed (flowsheet_diff a b) = {||}"
  show "a = b"
  proof (rule fmap_ext)
    fix k
    show "fmlookup a k = fmlookup b k"
    proof (rule ccontr)
      assume n: "fmlookup a k \<noteq> fmlookup b k"
      then have "k |\<in>| fmdom a |\<union>| fmdom b"
        by (cases "fmlookup a k"; cases "fmlookup b k") (auto simp: fmdomI)
      with n have "k |\<in>| changed (flowsheet_diff a b)"
        by (simp add: flowsheet_diff_def)
      with e show False by simp
    qed
  qed
next
  assume "a = b"
  then show "changed (flowsheet_diff a b) = {||}"
    by (auto simp: flowsheet_diff_def)
qed

lemma len_diff_zero_iff: "len_diff (flowsheet_diff a b) = 0 \<longleftrightarrow> a = b"
  by (simp add: len_diff_def changed_empty_iff)

lemma merged_same: "merged (flowsheet_diff a a) = a"
  by (simp add: flowsheet_diff_def)

text \<open>
  C2. When the stored document of a registered identifier equals the document serialized
  from the live flowsheet, \<^verbatim>\<open>update_flowsheet\<close> saves nothing: it returns the stored
  document, and the world (the files on disk and the stores in memory) is what it was.
\<close>

theorem update_without_diff_saves_nothing:
  assumes "dsm_load w i = Inr stored" and "flowsheets w i = Some fs" and "fs i = Inr live"
    and "stored = live"
  shows "update_flowsheet w i = (Inr stored, w)"
  using assms
  by (simp add: update_flowsheet_def load_flowsheet_def get_flowsheet_obj_def getitem_def
      serialize_flowsheet_def as_dict_def len_diff_zero_iff merged_same)

theorem update_without_diff_saves_nothing_witness:
  "dsm_load
     \<lparr>flowsheets = [''fs'' \<mapsto> (\<lambda>_. Inr (fmupd ''a'' (JNum 1) fmempty))],
      dsm = [''fs'' \<mapsto> FileDataStore [''fs.json'']],
      settings_block = Map.empty,
      files = [[''fs.json''] \<mapsto> Saved (fmupd ''a'' (JNum 1) fmempty)]\<rparr> ''fs''
     = Inr (fmupd ''a'' (JNum 1) fmempty)
 \<and> update_flowsheet
     \<lparr>flowsheets = [''fs'' \<mapsto> (\<lambda>_. Inr (fmupd ''a'' (JNum 1) fmempty))],
      dsm = [''fs'' \<mapsto> FileDataStore [''fs.json'']],
      settings_block = Map.empty,
      files = [[''fs.json''] \<mapsto> Saved (fmupd ''a'' (JNum 1) fmempty)]\<rparr> ''fs''
     = (Inr (fmupd ''a'' (JNum 1) fmempty),
        \<lparr>flowsheets = [''fs'' \<mapsto> (\<lambda>_. Inr (fmupd ''a'' (JNum 1) fmempty))],
         dsm = [''fs'' \<mapsto> FileDataStore [''fs.json'']],
         settings_block = Map.empty,
         files = [[''fs.json''] \<mapsto> Saved (fmupd ''a'' (JNum 1) fmempty)]\<rparr>)"
proof -
  let ?doc = "fmupd ''a'' (JNum 1) fmempty :: document"
  let ?w = "\<lparr>flowsheets = [''fs'' \<mapsto> (\<lambda>_. Inr ?doc)],
      dsm = [''fs'' \<mapsto> FileDataStore [''fs.json'']],
      settings_block = Map.empty,
      files = [[''fs.json''] \<mapsto> Saved ?doc]\<rparr>"
  have l: "dsm_load ?w ''fs'' = Inr ?doc"
    by (simp add: dsm_load_def store_load_def)
  have f: "flowsheets ?w ''fs'' = Some (\<lambda>_. Inr ?doc)"
    by simp
  show ?thesis
    using l update_without_diff_saves_nothing [OF l f refl refl] by simp
qed


lemma merged_override: "merged (flowsheet_diff a b) = a ++\<^sub>f b"
  by (simp add: flowsheet_diff_def)

lemma update_registered_differs:
  assumes "dsm w i = Some st" and "store_load (files w) st = Inr stored"
    and "flowsheets w i = Some fs" and "fs i = Inr live" and "stored \<noteq> live"
  shows "update_flowsheet w i = (Inr (stored ++\<^sub>f live), store_save w i st (stored ++\<^sub>f live))"
proof -
  have d: "len_diff (flowsheet_diff stored live) \<noteq> 0"
    using assms(5) by (simp add: len_diff_zero_iff)
  show ?thesis
    using assms(1-4) d
    by (simp add: update_flowsheet_def load_flowsheet_def get_flowsheet_obj_def getitem_def
        serialize_flowsheet_def as_dict_def dsm_load_def save_flowsheet_def
        dsm_save_def merged_override Let_def)
qed

lemma load_after_save:
  "dsm w i = Some st \<Longrightarrow> dsm_load (store_save w i st doc) i = Inr doc"
  by (cases st) (auto simp: dsm_load_def store_save_def store_load_def)

text \<open>
  C1. When the stored and the live document differ, \<^verbatim>\<open>update_flowsheet\<close> returns the
  merge by key-level override and saves it: every top-level key of the live document has
  the live value, every top-level key of the stored document alone has the stored value,
  there are no other keys, and the store holds the merged document afterwards.
\<close>

theorem update_merges_by_key:
  assumes "dsm_load w i = Inr stored" and "flowsheets w i = Some fs" and "fs i = Inr live"
    and "stored \<noteq> live"
  shows "\<exists>m w'. update_flowsheet w i = (Inr m, w')
      \<and> (\<forall>k. k |\<in>| fmdom live \<longrightarrow> fmlookup m k = fmlookup live k)
      \<and> (\<forall>k. k |\<in>| fmdom stored \<and> k |\<notin>| fmdom live \<longrightarrow> fmlookup m k = fmlookup stored k)
      \<and> fmdom m = fmdom stored |\<union>| fmdom live
      \<and> dsm_load w' i = Inr m"
proof -
  from assms(1) obtain st where st: "dsm w i = Some st" "store_load (files w) st = Inr stored"
    by (auto simp: dsm_load_def split: option.splits)
  have u: "update_flowsheet w i = (Inr (stored ++\<^sub>f live), store_save w i st (stored ++\<^sub>f live))"
    using st assms by (intro update_registered_differs)
  have "\<forall>k. k |\<in>| fmdom live \<longrightarrow> fmlookup (stored ++\<^sub>f live) k = fmlookup live k"
    by simp
  moreover have "\<forall>k. k |\<in>| fmdom stored \<and> k |\<notin>| fmdom live
      \<longrightarrow> fmlookup (stored ++\<^sub>f live) k = fmlookup stored k"
    by simp
  moreover have "fmdom (stored ++\<^sub>f live) = fmdom stored |\<union>| fmdom live"
    by simp
  moreover have "dsm_load (store_save w i st (stored ++\<^sub>f live)) i = Inr (stored ++\<^sub>f live)"
    using st(1) by (rule load_after_save)
  ultimately show ?thesis using u by blast
qed

lemma example_differs: "example_stored \<noteq> example_live"
proof
  assume "example_stored = example_live"
  then have "fmlookup example_stored ''a'' = fmlookup example_live ''a''" by simp
  then show False by (simp add: example_stored_def example_live_def)
qed

text \<open>
  The specification's example: stored \<^verbatim>\<open>{"a":1,"layout":{"x":5}}\<close> and live
  \<^verbatim>\<open>{"a":2}\<close> merge to \<^verbatim>\<open>{"a":2,"layout":{"x":5}}\<close>.
\<close>

theorem update_merges_by_key_witness:
  "example_stored \<noteq> example_live
 \<and> (\<exists>w'. update_flowsheet
       ((new_server [[''fs.json''] \<mapsto> Saved example_stored])
          \<lparr>flowsheets := [''fs'' \<mapsto> (\<lambda>_. Inr example_live)],
           dsm := [''fs'' \<mapsto> FileDataStore [''fs.json'']]\<rparr>) ''fs''
      = (Inr example_merged, w')
    \<and> dsm_load w' ''fs'' = Inr example_merged)"
proof -
  let ?w = "(new_server [[''fs.json''] \<mapsto> Saved example_stored])
          \<lparr>flowsheets := [''fs'' \<mapsto> (\<lambda>_. Inr example_live)],
           dsm := [''fs'' \<mapsto> FileDataStore [''fs.json'']]\<rparr>"
  have l: "dsm_load ?w ''fs'' = Inr example_stored"
    by (simp add: dsm_load_def store_load_def new_server_def)
  have f: "flowsheets ?w ''fs'' = Some (\<lambda>_. Inr example_live)"
    by simp
  from update_merges_by_key [OF l f refl example_differs] obtain m w' where
    u: "update_flowsheet ?w ''fs'' = (Inr m, w')"
    and a: "\<forall>k. k |\<in>| fmdom example_live \<longrightarrow> fmlookup m k = fmlookup example_live k"
    and b: "\<forall>k. k |\<in>| fmdom example_stored \<and> k |\<notin>| fmdom example_live
        \<longrightarrow> fmlookup m k = fmlookup example_stored k"
    and d: "fmdom m = fmdom example_stored |\<union>| fmdom example_live"
    and s: "dsm_load w' ''fs'' = Inr m"
    by blast
  have "m = example_merged"
  proof (rule fmap_ext)
    fix k
    show "fmlookup m k = fmlookup example_merged k"
    proof (cases "k |\<in>| fmdom m")
      case False
      with d show ?thesis
        by (auto simp: example_stored_def example_live_def example_merged_def fmdom_notD)
    next
      case True
      then show ?thesis using a b d
        by (auto simp: example_stored_def example_live_def example_merged_def)
    qed
  qed
  with u s example_differs show ?thesis by blast
qed

section \<open>Properties of the errors of an update\<close>

lemma update_unknown:
  "dsm w i = None \<Longrightarrow> update_flowsheet w i = (Inl (FlowsheetUnknown i), w)"
  by (simp add: update_flowsheet_def load_flowsheet_def dsm_load_def)

lemma update_no_document:
  "dsm w i = Some st \<Longrightarrow> holds_no_document (files w) st
   \<Longrightarrow> update_flowsheet w i = (Inl (FlowsheetNotFoundInDatastore i), w)"
  by (auto simp: update_flowsheet_def load_flowsheet_def dsm_load_def store_load_def
      holds_no_document_def split: DataStore.splits option.splits)

lemma update_no_object:
  "dsm_load w i = Inr d \<Longrightarrow> flowsheets w i = None
   \<Longrightarrow> update_flowsheet w i = (Inl (FlowsheetNotFoundInMemory i), w)"
  by (simp add: update_flowsheet_def load_flowsheet_def get_flowsheet_obj_def getitem_def)

lemma update_serializer_caught:
  "dsm_load w i = Inr d \<Longrightarrow> flowsheets w i = Some fs \<Longrightarrow> fs i = Inl e
   \<Longrightarrow> caught_on_serialize e
   \<Longrightarrow> \<exists>msg. update_flowsheet w i = (Inl (ProcessingError msg), w)"
  by (cases e) (simp_all add: update_flowsheet_def load_flowsheet_def get_flowsheet_obj_def
      getitem_def serialize_flowsheet_def as_dict_def)

lemma update_serializer_passes:
  "dsm_load w i = Inr d \<Longrightarrow> flowsheets w i = Some fs \<Longrightarrow> fs i = Inl e
   \<Longrightarrow> \<not> caught_on_serialize e
   \<Longrightarrow> update_flowsheet w i = (Inl e, w)"
  by (cases e) (simp_all add: update_flowsheet_def load_flowsheet_def get_flowsheet_obj_def
      getitem_def serialize_flowsheet_def as_dict_def)

lemma update_serialized:
  assumes "dsm_load w i = Inr d" and "flowsheets w i = Some fs" and "fs i = Inr live"
  shows "\<exists>m w'. update_flowsheet w i = (Inr m, w')"
proof -
  from assms(1) obtain st where "dsm w i = Some st"
    by (auto simp: dsm_load_def split: option.splits)
  then show ?thesis using assms
    by (simp add: update_flowsheet_def load_flowsheet_def get_flowsheet_obj_def getitem_def
        serialize_flowsheet_def as_dict_def save_flowsheet_def dsm_save_def Let_def)
qed

lemma load_cases:
  "dsm w i = None
   \<or> (\<exists>st. dsm w i = Some st \<and> holds_no_document (files w) st)
   \<or> (\<exists>d. dsm_load w i = Inr d)"
  by (auto simp: dsm_load_def store_load_def holds_no_document_def
      split: option.splits DataStore.splits file_content.splits)

lemma load_exclusive:
  "dsm_load w i = Inr d \<Longrightarrow> dsm w i = Some st \<Longrightarrow> \<not> holds_no_document (files w) st"
  by (auto simp: dsm_load_def store_load_def holds_no_document_def
      split: option.splits DataStore.splits file_content.splits)

lemma load_registered: "dsm_load w i = Inr d \<Longrightarrow> dsm w i \<noteq> None"
  by (auto simp: dsm_load_def split: option.splits)

text \<open>
  C7, as the claim states it: a failure of the serializer raises
  \<^verbatim>\<open>ProcessingError\<close>. The source wraps the exceptions that its \<^verbatim>\<open>except\<close> clauses
  name; a serializer that raises a \<^verbatim>\<open>TypeError\<close> has it leave \<^verbatim>\<open>update_flowsheet\<close>
  as it is.
\<close>

theorem update_serializer_type_error_counterexample:
  "serializer_raises
     ((new_server [[''fs.json''] \<mapsto> Saved example_stored])
        \<lparr>flowsheets := [''fs'' \<mapsto> (\<lambda>_. Inl (TypeError ''unhashable type''))],
         dsm := [''fs'' \<mapsto> FileDataStore [''fs.json'']]\<rparr>) ''fs'' (TypeError ''unhashable type'')
 \<and> update_flowsheet
     ((new_server [[''fs.json''] \<mapsto> Saved example_stored])
        \<lparr>flowsheets := [''fs'' \<mapsto> (\<lambda>_. Inl (TypeError ''unhashable type''))],
         dsm := [''fs'' \<mapsto> FileDataStore [''fs.json'']]\<rparr>) ''fs''
   = (Inl (TypeError ''unhashable type''),
      (new_server [[''fs.json''] \<mapsto> Saved example_stored])
        \<lparr>flowsheets := [''fs'' \<mapsto> (\<lambda>_. Inl (TypeError ''unhashable type''))],
         dsm := [''fs'' \<mapsto> FileDataStore [''fs.json'']]\<rparr>)"
  by (simp add: serializer_raises_def new_server_def dsm_load_def store_load_def
      update_flowsheet_def load_flowsheet_def get_flowsheet_obj_def getitem_def
      serialize_flowsheet_def as_dict_def)

text \<open>
  C7, amended. \<^verbatim>\<open>update_flowsheet\<close> tells its failures apart. An identifier that was
  never registered raises \<^verbatim>\<open>FlowsheetUnknown\<close>; a registered identifier whose store
  holds no persisted document (no file, an empty file, an empty memory store) raises
  \<^verbatim>\<open>FlowsheetNotFoundInDatastore\<close>; a stored document without a live flowsheet object
  raises \<^verbatim>\<open>FlowsheetNotFoundInMemory\<close>; a serializer failure that is an
  \<^verbatim>\<open>AttributeError\<close>, a \<^verbatim>\<open>KeyError\<close> or a \<^verbatim>\<open>ValueError\<close> raises
  \<^verbatim>\<open>ProcessingError\<close>, and any other exception of the serializer leaves the update
  unchanged. Each of the three not-found errors comes out of its own situation and of no
  other, unless the serializer itself raises it; so no input raises two of them.
\<close>

theorem update_errors_distinct:
  "(dsm w i = None \<longrightarrow> update_flowsheet w i = (Inl (FlowsheetUnknown i), w))
 \<and> (dsm w i = Some st \<and> holds_no_document (files w) st
      \<longrightarrow> update_flowsheet w i = (Inl (FlowsheetNotFoundInDatastore i), w))
 \<and> (dsm_load w i = Inr d \<and> flowsheets w i = None
      \<longrightarrow> update_flowsheet w i = (Inl (FlowsheetNotFoundInMemory i), w))
 \<and> (dsm_load w i = Inr d \<and> flowsheets w i = Some fs \<and> fs i = Inl e \<and> caught_on_serialize e
      \<longrightarrow> (\<exists>msg. update_flowsheet w i = (Inl (ProcessingError msg), w)))
 \<and> (dsm_load w i = Inr d \<and> flowsheets w i = Some fs \<and> fs i = Inl e \<and> \<not> caught_on_serialize e
      \<longrightarrow> update_flowsheet w i = (Inl e, w))
 \<and> (fst (update_flowsheet w i) = Inl (FlowsheetUnknown j)
      \<longleftrightarrow> (dsm w i = None \<and> j = i) \<or> serializer_raises w i (FlowsheetUnknown j))
 \<and> (fst (update_flowsheet w i) = Inl (FlowsheetNotFoundInDatastore j)
      \<longleftrightarrow> ((\<exists>s. dsm w i = Some s \<and> holds_no_document (files w) s) \<and> j = i)
          \<or> serializer_raises w i (FlowsheetNotFoundInDatastore j))
 \<and> (fst (update_flowsheet w i) = Inl (FlowsheetNotFoundInMemory j)
      \<longleftrightarrow> ((\<exists>d. dsm_load w i = Inr d) \<and> flowsheets w i = None \<and> j = i)
          \<or> serializer_raises w i (FlowsheetNotFoundInMemory j))"
proof -
  consider (unknown) "dsm w i = None"
    | (nodoc) s where "dsm w i = Some s" "holds_no_document (files w) s"
    | (noobj) d where "dsm_load w i = Inr d" "flowsheets w i = None"
    | (caught) d fs e where "dsm_load w i = Inr d" "flowsheets w i = Some fs" "fs i = Inl e"
        "caught_on_serialize e"
    | (passes) d fs e where "dsm_load w i = Inr d" "flowsheets w i = Some fs" "fs i = Inl e"
        "\<not> caught_on_serialize e"
    | (ok) d fs live where "dsm_load w i = Inr d" "flowsheets w i = Some fs" "fs i = Inr live"
  proof -
    from load_cases [of w i] show ?thesis
    proof (elim disjE exE conjE)
      fix d assume l: "dsm_load w i = Inr d"
      show ?thesis
      proof (cases "flowsheets w i")
        case None
        with l show ?thesis by (rule noobj)
      next
        case (Some fs)
        show ?thesis
        proof (cases "fs i")
          case (Inl e)
          with l Some show ?thesis by (cases "caught_on_serialize e") (auto intro: caught passes)
        next
          case (Inr live)
          with l Some show ?thesis by (intro ok)
        qed
      qed
    qed (auto intro: unknown nodoc)
  qed
  then have iffs:
    "(fst (update_flowsheet w i) = Inl (FlowsheetUnknown j)
      \<longleftrightarrow> (dsm w i = None \<and> j = i) \<or> serializer_raises w i (FlowsheetUnknown j))
   \<and> (fst (update_flowsheet w i) = Inl (FlowsheetNotFoundInDatastore j)
      \<longleftrightarrow> ((\<exists>s. dsm w i = Some s \<and> holds_no_document (files w) s) \<and> j = i)
          \<or> serializer_raises w i (FlowsheetNotFoundInDatastore j))
   \<and> (fst (update_flowsheet w i) = Inl (FlowsheetNotFoundInMemory j)
      \<longleftrightarrow> ((\<exists>d. dsm_load w i = Inr d) \<and> flowsheets w i = None \<and> j = i)
          \<or> serializer_raises w i (FlowsheetNotFoundInMemory j))"
  proof cases
    case unknown
    then show ?thesis
      by (auto simp: update_unknown dsm_load_def serializer_raises_def)
  next
    case nodoc
    have "\<And>d. dsm_load w i \<noteq> Inr d"
      using nodoc load_exclusive [of w i _ s] by blast
    then have "\<And>x. \<not> serializer_raises w i x"
      by (auto simp: serializer_raises_def split: sum.splits)
    then show ?thesis
      using nodoc \<open>\<And>d. dsm_load w i \<noteq> Inr d\<close> by (auto simp: update_no_document)
  next
    case noobj
    have "\<And>x. \<not> serializer_raises w i x"
      using noobj by (simp add: serializer_raises_def)
    then show ?thesis
      using noobj load_exclusive [of w i d] load_registered [of w i d]
      by (auto simp: update_no_object)
  next
    case caught
    from update_serializer_caught [OF this] obtain msg where
      u: "update_flowsheet w i = (Inl (ProcessingError msg), w)" by blast
    have r: "\<And>x. serializer_raises w i x \<longleftrightarrow> x = e"
      using caught by (auto simp: serializer_raises_def)
    have "e \<noteq> FlowsheetUnknown j" "e \<noteq> FlowsheetNotFoundInDatastore j"
      "e \<noteq> FlowsheetNotFoundInMemory j"
      using caught(4) by auto
    then show ?thesis
      using u r caught load_exclusive [of w i d] load_registered [of w i d] by auto
  next
    case passes
    from update_serializer_passes [OF this] have
      u: "update_flowsheet w i = (Inl e, w)" .
    have r: "\<And>x. serializer_raises w i x \<longleftrightarrow> x = e"
      using passes by (auto simp: serializer_raises_def)
    show ?thesis
      using u r passes load_exclusive [of w i d] load_registered [of w i d] by auto
  next
    case ok
    from update_serialized [OF this] obtain m w' where
      u: "update_flowsheet w i = (Inr m, w')" by blast
    have r: "\<And>x. \<not> serializer_raises w i x"
      using ok by (simp add: serializer_raises_def)
    show ?thesis
      using u r ok load_exclusive [of w i d] load_registered [of w i d] by auto
  qed
  show ?thesis
    using iffs update_unknown [of w i] update_no_document [of w i st]
      update_no_object [of w i d] update_serializer_caught [of w i d fs e]
      update_serializer_passes [of w i d fs e]
    by blast
qed

theorem update_errors_distinct_witness:
  "update_flowsheet (new_server Map.empty) ''fs''
     = (Inl (FlowsheetUnknown ''fs''), new_server Map.empty)
 \<and> update_flowsheet
      ((new_server [[''fs.json''] \<mapsto> Blank])\<lparr>dsm := [''fs'' \<mapsto> FileDataStore [''fs.json'']]\<rparr>) ''fs''
     = (Inl (FlowsheetNotFoundInDatastore ''fs''),
        (new_server [[''fs.json''] \<mapsto> Blank])\<lparr>dsm := [''fs'' \<mapsto> FileDataStore [''fs.json'']]\<rparr>)
 \<and> update_flowsheet
      ((new_server [[''fs.json''] \<mapsto> Saved example_stored])
         \<lparr>dsm := [''fs'' \<mapsto> FileDataStore [''fs.json'']]\<rparr>) ''fs''
     = (Inl (FlowsheetNotFoundInMemory ''fs''),
        (new_server [[''fs.json''] \<mapsto> Saved example_stored])
          \<lparr>dsm := [''fs'' \<mapsto> FileDataStore [''fs.json'']]\<rparr>)
 \<and> (\<exists>msg. update_flowsheet
      ((new_server [[''fs.json''] \<mapsto> Saved example_stored])
         \<lparr>flowsheets := [''fs'' \<mapsto> (\<lambda>_. Inl (KeyError ''unit''))],
          dsm := [''fs'' \<mapsto> FileDataStore [''fs.json'']]\<rparr>) ''fs''
     = (Inl (ProcessingError msg),
        (new_server [[''fs.json''] \<mapsto> Saved example_stored])
          \<lparr>flowsheets := [''fs'' \<mapsto> (\<lambda>_. Inl (KeyError ''unit''))],
           dsm := [''fs'' \<mapsto> FileDataStore [''fs.json'']]\<rparr>))
 \<and> update_flowsheet
      ((new_server [[''fs.json''] \<mapsto> Saved example_stored])
         \<lparr>flowsheets := [''fs'' \<mapsto> (\<lambda>_. Inl (RuntimeError ''no solver''))],
          dsm := [''fs'' \<mapsto> FileDataStore [''fs.json'']]\<rparr>) ''fs''
     = (Inl (RuntimeError ''no solver''),
        (new_server [[''fs.json''] \<mapsto> Saved example_stored])
          \<lparr>flowsheets := [''fs'' \<mapsto> (\<lambda>_. Inl (RuntimeError ''no solver''))],
           dsm := [''fs'' \<mapsto> FileDataStore [''fs.json'']]\<rparr>)"
  using
    update_errors_distinct [of "new_server Map.empty" "''fs''"]
    update_errors_distinct [of
      "(new_server [[''fs.json''] \<mapsto> Blank])\<lparr>dsm := [''fs'' \<mapsto> FileDataStore [''fs.json'']]\<rparr>"
      "''fs''" "FileDataStore [''fs.json'']"]
    update_errors_distinct [of "(new_server [[''fs.json''] \<mapsto> Saved example_stored])
         \<lparr>dsm := [''fs'' \<mapsto> FileDataStore [''fs.json'']]\<rparr>" "''fs''" _ example_stored]
    update_errors_distinct [of "(new_server [[''fs.json''] \<mapsto> Saved example_stored])
         \<lparr>flowsheets := [''fs'' \<mapsto> (\<lambda>_. Inl (KeyError ''unit''))],
          dsm := [''fs'' \<mapsto> FileDataStore [''fs.json'']]\<rparr>" "''fs''" _ example_stored
         "\<lambda>_. Inl (KeyError ''unit'')" "KeyError ''unit''"]
    update_errors_distinct [of "(new_server [[''fs.json''] \<mapsto> Saved example_stored])
         \<lparr>flowsheets := [''fs'' \<mapsto> (\<lambda>_. Inl (RuntimeError ''no solver''))],
          dsm := [''fs'' \<mapsto> FileDataStore [''fs.json'']]\<rparr>" "''fs''" _ example_stored
         "\<lambda>_. Inl (RuntimeError ''no solver'')" "RuntimeError ''no solver''"]
  by (simp add: new_server_def holds_no_document_def dsm_load_def store_load_def)

section \<open>Properties of the diagnostics runner\<close>

lemma put_diagnostic_method:
  "flowsheets w i = Some fs \<Longrightarrow> T fs name = Some (Method r)
   \<Longrightarrow> \<exists>c b. put_diagnostic w T name i = [GetAttr name, Call name, Respond c b]"
  by (cases r) (auto simp: put_diagnostic_def get_flowsheet_obj_def getitem_def Let_def)

lemma put_diagnostic_field:
  "flowsheets w i = Some fs \<Longrightarrow> T fs name = Some Field
   \<Longrightarrow> \<exists>b. put_diagnostic w T name i = [GetAttr name, Respond 500 b]"
  by (auto simp: put_diagnostic_def get_flowsheet_obj_def getitem_def Let_def)

lemma put_diagnostic_unknown:
  "flowsheets w i = Some fs \<Longrightarrow> T fs name = None
   \<Longrightarrow> \<exists>b. put_diagnostic w T name i =
        [Respond 500 (JObj (fmupd ''error'' (JStr (''Unknown function: '' @ name)) fmempty)),
         Respond 500 b]"
  by (auto simp: put_diagnostic_def get_flowsheet_obj_def getitem_def Let_def dom_def)

lemma put_diagnostic_no_flowsheet:
  "flowsheets w i = None \<Longrightarrow> \<exists>b. put_diagnostic w T name i = [Respond 500 b]"
  by (auto simp: put_diagnostic_def get_flowsheet_obj_def getitem_def)

text \<open>
  C4, as the claim states it: only the names of a fixed allow-list can be invoked. The
  handler has no such list. Whatever list is proposed, a diagnostics object with a method of
  another name has that method called; so is, for one, a private helper next to the
  reporting method.
\<close>

theorem diagnostic_allow_list_counterexample:
  "put_diagnostic ((new_server Map.empty)\<lparr>flowsheets := [''fs'' \<mapsto> (\<lambda>_. Inr fmempty)]\<rparr>)
      (\<lambda>_. [''report_structural_issues'' \<mapsto> Method (Inr ''ok''),
            ''_collect_structural_warnings'' \<mapsto> Method (Inr ''internal'')])
      ''_collect_structural_warnings'' ''fs''
    = [GetAttr ''_collect_structural_warnings'', Call ''_collect_structural_warnings'',
       Respond 200 (JObj (fmupd ''diagnostics_runner_result'' (JStr ''internal'') fmempty))]
 \<and> \<not> (\<exists>allow :: string list. \<forall>w T name i.
        name \<notin> set allow \<longrightarrow> Call name \<notin> set (put_diagnostic w T name i))"
proof
  show "put_diagnostic ((new_server Map.empty)\<lparr>flowsheets := [''fs'' \<mapsto> (\<lambda>_. Inr fmempty)]\<rparr>)
      (\<lambda>_. [''report_structural_issues'' \<mapsto> Method (Inr ''ok''),
            ''_collect_structural_warnings'' \<mapsto> Method (Inr ''internal'')])
      ''_collect_structural_warnings'' ''fs''
    = [GetAttr ''_collect_structural_warnings'', Call ''_collect_structural_warnings'',
       Respond 200 (JObj (fmupd ''diagnostics_runner_result'' (JStr ''internal'') fmempty))]"
    by (simp add: put_diagnostic_def get_flowsheet_obj_def getitem_def new_server_def)
next
  show "\<not> (\<exists>allow :: string list. \<forall>w T name i.
        name \<notin> set allow \<longrightarrow> Call name \<notin> set (put_diagnostic w T name i))"
  proof
    assume "\<exists>allow :: string list. \<forall>w T name i.
        name \<notin> set allow \<longrightarrow> Call name \<notin> set (put_diagnostic w T name i)"
    then obtain allow :: "string list" where
      a: "\<And>w T name i. name \<notin> set allow \<Longrightarrow> Call name \<notin> set (put_diagnostic w T name i)"
      by blast
    have "infinite (UNIV :: string set)" by (rule infinite_UNIV_listI)
    then obtain name where n: "name \<notin> set allow"
      using ex_new_if_finite [of "set allow"] by auto
    let ?w = "(new_server Map.empty)\<lparr>flowsheets := [''fs'' \<mapsto> (\<lambda>_. Inr fmempty)]\<rparr>"
    let ?T = "\<lambda>fs :: flowsheet. [name \<mapsto> Method (Inr '''')]"
    have "Call name \<in> set (put_diagnostic ?w ?T name ''fs'')"
      by (simp add: put_diagnostic_def get_flowsheet_obj_def getitem_def)
    with a [OF n] show False by blast
  qed
qed

text \<open>
  C4, amended. The operation name is resolved by attribute lookup on the diagnostics
  object: the named attribute is read exactly when the flowsheet is registered and the
  object has an attribute of that name, and it is called exactly when that attribute is a
  method; no attribute of another name is read or called; a name that is not an attribute
  of the object is answered with the error \<^verbatim>\<open>Unknown function\<close>, all responses
  being errors.
\<close>

theorem diagnostic_by_attribute_lookup:
  "(Call name \<in> set (put_diagnostic w T name i)
      \<longleftrightarrow> (\<exists>fs r. flowsheets w i = Some fs \<and> T fs name = Some (Method r)))
 \<and> (GetAttr name \<in> set (put_diagnostic w T name i)
      \<longleftrightarrow> (\<exists>fs. flowsheets w i = Some fs \<and> name \<in> dom (T fs)))
 \<and> (\<forall>n. Call n \<in> set (put_diagnostic w T name i) \<or> GetAttr n \<in> set (put_diagnostic w T name i)
      \<longrightarrow> n = name)
 \<and> (flowsheets w i = Some fs \<and> name \<notin> dom (T fs)
      \<longrightarrow> Respond 500 (JObj (fmupd ''error'' (JStr (''Unknown function: '' @ name)) fmempty))
            \<in> set (put_diagnostic w T name i)
        \<and> (\<forall>e \<in> set (put_diagnostic w T name i). \<exists>b. e = Respond 500 b))"
proof (cases "flowsheets w i")
  case None
  from put_diagnostic_no_flowsheet [of w i T name] None obtain b where
    "put_diagnostic w T name i = [Respond 500 b]" by blast
  with None show ?thesis by auto
next
  case (Some obj)
  note reg = this
  show ?thesis
  proof (cases "T obj name")
    case None
    from put_diagnostic_unknown [of w i obj T name] reg None obtain b where
      "put_diagnostic w T name i =
        [Respond 500 (JObj (fmupd ''error'' (JStr (''Unknown function: '' @ name)) fmempty)),
         Respond 500 b]" by blast
    with reg None show ?thesis by (auto simp: dom_def)
  next
    case (Some a)
    note attr = this
    show ?thesis
    proof (cases a)
      case (Method r)
      from put_diagnostic_method [of w i obj T name r] reg attr Method
      obtain c b where "put_diagnostic w T name i = [GetAttr name, Call name, Respond c b]"
        by blast
      with reg attr Method show ?thesis by (auto simp: dom_def)
    next
      case Field
      from put_diagnostic_field [of w i obj T name] reg attr Field
      obtain b where "put_diagnostic w T name i = [GetAttr name, Respond 500 b]"
        by blast
      with reg attr Field show ?thesis by (auto simp: dom_def)
    qed
  qed
qed


theorem diagnostic_by_attribute_lookup_witness:
  "Call ''report_structural_issues''
     \<in> set (put_diagnostic ((new_server Map.empty)\<lparr>flowsheets := [''fs'' \<mapsto> (\<lambda>_. Inr fmempty)]\<rparr>)
         (\<lambda>_. [''report_structural_issues'' \<mapsto> Method (Inr ''ok''), ''config'' \<mapsto> Field])
         ''report_structural_issues'' ''fs'')
 \<and> Respond 500 (JObj (fmupd ''error'' (JStr ''Unknown function: nope'') fmempty))
     \<in> set (put_diagnostic ((new_server Map.empty)\<lparr>flowsheets := [''fs'' \<mapsto> (\<lambda>_. Inr fmempty)]\<rparr>)
         (\<lambda>_. [''report_structural_issues'' \<mapsto> Method (Inr ''ok''), ''config'' \<mapsto> Field])
         ''nope'' ''fs'')
 \<and> GetAttr ''nope''
     \<notin> set (put_diagnostic ((new_server Map.empty)\<lparr>flowsheets := [''fs'' \<mapsto> (\<lambda>_. Inr fmempty)]\<rparr>)
         (\<lambda>_. [''report_structural_issues'' \<mapsto> Method (Inr ''ok''), ''config'' \<mapsto> Field])
         ''nope'' ''fs'')"
  using
    diagnostic_by_attribute_lookup [of "''report_structural_issues''"
      "(new_server Map.empty)\<lparr>flowsheets := [''fs'' \<mapsto> (\<lambda>_. Inr fmempty)]\<rparr>"
      "\<lambda>_. [''report_structural_issues'' \<mapsto> Method (Inr ''ok''), ''config'' \<mapsto> Field]"
      "''fs''" "\<lambda>_. Inr fmempty"]
    diagnostic_by_attribute_lookup [of "''nope''"
      "(new_server Map.empty)\<lparr>flowsheets := [''fs'' \<mapsto> (\<lambda>_. Inr fmempty)]\<rparr>"
      "\<lambda>_. [''report_structural_issues'' \<mapsto> Method (Inr ''ok''), ''config'' \<mapsto> Field]"
      "''fs''" "\<lambda>_. Inr fmempty"]
  by (simp add: new_server_def)


section \<open>Properties of \<^verbatim>\<open>visualize\<close> with overwriting\<close>










end
